theory Spec2Isabelle
  imports Complex_Main
begin

section \<open>Python values, errors and helpers\<close>

text \<open>
  The sources are Python 2 (\<^verbatim>\<open>len(filter(...))\<close>, \<^verbatim>\<open>open(fn, 'rU')\<close>, a commented-out
  \<^verbatim>\<open>print\<close> statement).  Integers are unbounded (\<^typ>\<open>int\<close>), strings are \<^typ>\<open>string\<close>,
  and every exception the interpreter raises is a value of \<open>py_error\<close> returned on the
  left of a sum.
\<close>

datatype py_error =
    NameError string
  | AttributeError string
  | TypeError string
  | IndexError
  | KeyError string
  | ValueError string
  | ZeroDivisionError

definition ebind :: "py_error + 'a \<Rightarrow> ('a \<Rightarrow> py_error + 'b) \<Rightarrow> py_error + 'b" where
  "ebind m f = (case m of Inl e \<Rightarrow> Inl e | Inr x \<Rightarrow> f x)"

text \<open>Python list indexing \<^verbatim>\<open>xs[i]\<close> for a non-negative literal index.\<close>

definition idx :: "'a list \<Rightarrow> nat \<Rightarrow> py_error + 'a" where
  "idx xs i = (if i < length xs then Inr (xs ! i) else Inl IndexError)"

text \<open>\<^verbatim>\<open>str(n)\<close> for an integer: decimal digits, a leading minus sign when negative.\<close>

function str_nat :: "nat \<Rightarrow> string" where
  "str_nat n = (if n < 10 then [''0123456789'' ! n]
                else str_nat (n div 10) @ [''0123456789'' ! (n mod 10)])"
  by pat_completeness auto
termination
  by (relation "measure (\<lambda>n. n)") auto

declare str_nat.simps [simp del]

definition str_int :: "int \<Rightarrow> string" where
  "str_int i = (if i < 0 then CHR ''-'' # str_nat (nat (- i)) else str_nat (nat i))"

section \<open>Realignment segments (external objects read by the caller)\<close>

text \<open>
  The realignment-result class is not part of the two source files; the record lists the
  attributes and accessor results that \<^verbatim>\<open>sv_caller.py\<close> reads from it:
  \<^verbatim>\<open>qstart\<close>, \<^verbatim>\<open>qend\<close>, \<^verbatim>\<open>get_coords('query')\<close>, \<^verbatim>\<open>get_coords('ref')\<close>,
  \<^verbatim>\<open>get_seq_name('ref')\<close>, \<^verbatim>\<open>strand\<close>, \<^verbatim>\<open>in_target\<close>, \<^verbatim>\<open>get_nmatch_total()\<close>,
  \<^verbatim>\<open>get_query_span()\<close>, \<^verbatim>\<open>get_seq_size('query')\<close>, \<^verbatim>\<open>filter_reps_edges\<close>, and the two
  values written back by \<^verbatim>\<open>set_segment_overlap\<close> and \<^verbatim>\<open>set_sv_brkpt\<close>.
\<close>

datatype brkpt_key = Target | Other

datatype genomic_brkpt = Brkpt1 string int | Brkpt2 string int int

record segment =
  qstart :: int
  qend :: int
  query_coords :: "int \<times> int"
  ref_coords :: "int \<times> int"
  seq_name_ref :: string
  strand :: string
  in_target :: bool
  nmatch_total :: int
  query_span :: int
  seq_size_query :: int
  filter_reps_edges :: "bool \<times> bool"
  seg_overlap :: "int \<times> int"
  sv_brkpts :: "(genomic_brkpt \<times> string \<times> brkpt_key) list"

definition set_segment_overlap :: "int \<Rightarrow> int \<Rightarrow> segment \<Rightarrow> segment" where
  "set_segment_overlap l r br = br\<lparr>seg_overlap := (l, r)\<rparr>"

definition set_sv_brkpt :: "genomic_brkpt \<Rightarrow> string \<Rightarrow> brkpt_key \<Rightarrow> segment \<Rightarrow> segment" where
  "set_sv_brkpt b t k br = br\<lparr>sv_brkpts := sv_brkpts br @ [(b, t, k)]\<rparr>"

section \<open>Pairwise classification: \<^verbatim>\<open>SVEvent.check_overlap\<close> and \<^verbatim>\<open>SVEvent.which_rearr\<close>\<close>

text \<open>The read-evidence collaborator (\<^verbatim>\<open>varReads\<close>): three external read-count queries.\<close>

record var_reads =
  check_inv_readcounts :: "int list \<Rightarrow> int"
  check_td_readcounts :: "int list \<Rightarrow> int"
  check_other_readcounts :: "int list \<Rightarrow> int"

definition check_overlap :: "int \<times> int \<Rightarrow> int \<times> int \<Rightarrow> bool" where
  "check_overlap coord1 coord2 =
     (if fst coord1 \<ge> fst coord2 \<and> snd coord1 \<le> snd coord2 then True
      else if fst coord2 \<ge> fst coord1 \<and> snd coord2 \<le> snd coord1 then True
      else False)"

text \<open>
  The dictionary \<^verbatim>\<open>rearrValues\<close>; the key \<^verbatim>\<open>'indelSize'\<close> is only present on the two indel
  branches, so it is optional.
\<close>

record rearr_values =
  discReadCount :: "int option"
  svType :: string
  svSubType :: "string option"
  hit :: bool
  indelSize :: "string option"

definition rearrValues_init :: rearr_values where
  "rearrValues_init =
     \<lparr>discReadCount = None, svType = ''rearrangement'', svSubType = None, hit = False,
      indelSize = None\<rparr>"

text \<open>
  \<^verbatim>\<open>which_rearr(varReads, tcoords, qcoords, strands, brkpts)\<close>.  The arguments are the list
  slices handed over by \<^verbatim>\<open>define_rearr\<close>; every subscript is an \<open>idx\<close>, in the order in
  which Python evaluates them (the debug log line reads \<^verbatim>\<open>strands[0], strands[1],
  brkpts[0], brkpts[1]\<close> before the strand test).
\<close>

definition which_rearr ::
  "var_reads \<Rightarrow> (int \<times> int) list \<Rightarrow> (int \<times> int) list \<Rightarrow> string list \<Rightarrow> int list
     \<Rightarrow> py_error + rearr_values" where
  "which_rearr varReads tcoords qcoords strands brkpts =
     ebind (idx tcoords 0) (\<lambda>t0.
     ebind (idx tcoords 1) (\<lambda>t1.
       if \<not> check_overlap t0 t1 then
         ebind (idx strands 0) (\<lambda>s0.
         ebind (idx strands 1) (\<lambda>s1.
         ebind (idx brkpts 0) (\<lambda>b0.
         ebind (idx brkpts 1) (\<lambda>b1.
           if s0 \<noteq> s1 then
             Inr (rearrValues_init\<lparr>hit := True, svSubType := Some ''inversion'',
                    discReadCount := Some (check_inv_readcounts varReads brkpts)\<rparr>)
           else if s0 = s1 then
             (let tgap = b1 - b0 in
              ebind (idx qcoords 1) (\<lambda>q1.
              ebind (idx qcoords 0) (\<lambda>q0.
                let qgap = fst q1 - snd q0 in
                if tgap < 0 then
                  Inr (rearrValues_init\<lparr>hit := True, svSubType := Some ''tandem_dup'',
                         discReadCount := Some (check_td_readcounts varReads brkpts)\<rparr>)
                else if tgap > qgap then
                  Inr (rearrValues_init\<lparr>hit := True, svType := ''indel'',
                         indelSize := Some (''D'' @ str_int tgap)\<rparr>)
                else
                  Inr (rearrValues_init\<lparr>hit := True, svType := ''indel'',
                         indelSize := Some (''I'' @ str_int qgap)\<rparr>))))
           else Inr rearrValues_init))))
       else Inr rearrValues_init))"

section \<open>Breakpoint model: class \<^verbatim>\<open>SVBreakpoints\<close>\<close>

text \<open>
  The attributes assigned by \<^verbatim>\<open>SVBreakpoints.__init__\<close>.  \<^verbatim>\<open>self.t\<close> and
  \<^verbatim>\<open>self.genomicBrkpts\<close> are dictionaries with the two fixed keys \<^verbatim>\<open>'target'\<close> and
  \<^verbatim>\<open>'other'\<close>, \<^verbatim>\<open>self.q\<close> is the two-element list \<^verbatim>\<open>[[0, 0], []]\<close>, and
  \<^verbatim>\<open>self.counts\<close> has the keys \<^verbatim>\<open>'n'\<close>, \<^verbatim>\<open>'d'\<close>, \<^verbatim>\<open>'b'\<close>.  An entry of \<^verbatim>\<open>q[1]\<close> is a
  three-element list whose last component may be \<^verbatim>\<open>None\<close>.  The short attribute names
  \<^verbatim>\<open>r\<close>, \<^verbatim>\<open>f\<close>, \<^verbatim>\<open>q[0]\<close> and \<^verbatim>\<open>q[1]\<close> carry the prefix \<open>bp_\<close>.
\<close>

record SVBreakpoints =
  t_target :: "(string \<times> int) option"
  t_other :: "(string \<times> int) option"
  formatted :: "string list"
  bp_r :: "int list"
  bp_q0 :: "int \<times> int"
  bp_q1 :: "(int \<times> int \<times> int option) list"
  chrs :: "string list"
  brkptStr :: "string list"
  tcoords :: "(int \<times> int) list"
  qcoords :: "(int \<times> int) list"
  bp_f :: "bool option list"
  counts_n :: "int list"
  counts_d :: "int list"
  counts_b :: "int list"
  kmers :: "int list"
  genomicBrkpts_target :: "genomic_brkpt list"
  genomicBrkpts_other :: "genomic_brkpt list"

definition SVBreakpoints_init :: SVBreakpoints where
  "SVBreakpoints_init =
     \<lparr>t_target = None, t_other = None, formatted = [], bp_r = [], bp_q0 = (0, 0), bp_q1 = [],
      chrs = [], brkptStr = [], tcoords = [], qcoords = [], bp_f = [],
      counts_n = [], counts_d = [], counts_b = [], kmers = [],
      genomicBrkpts_target = [], genomicBrkpts_other = []\<rparr>"

text \<open>\<^verbatim>\<open>self.genomicBrkpts[targetKey].append(b)\<close> and \<^verbatim>\<open>self.t[targetKey] = v\<close>.\<close>

definition genomicBrkpts_append :: "brkpt_key \<Rightarrow> genomic_brkpt \<Rightarrow> SVBreakpoints \<Rightarrow> SVBreakpoints" where
  "genomicBrkpts_append k b self =
     (case k of
        Target \<Rightarrow> self\<lparr>genomicBrkpts_target := genomicBrkpts_target self @ [b]\<rparr>
      | Other \<Rightarrow> self\<lparr>genomicBrkpts_other := genomicBrkpts_other self @ [b]\<rparr>)"

definition genomicBrkpts :: "SVBreakpoints \<Rightarrow> brkpt_key \<Rightarrow> genomic_brkpt list" where
  "genomicBrkpts self k =
     (case k of Target \<Rightarrow> genomicBrkpts_target self | Other \<Rightarrow> genomicBrkpts_other self)"

definition t_update :: "brkpt_key \<Rightarrow> string \<times> int \<Rightarrow> SVBreakpoints \<Rightarrow> SVBreakpoints" where
  "t_update k v self =
     (case k of Target \<Rightarrow> self\<lparr>t_target := Some v\<rparr> | Other \<Rightarrow> self\<lparr>t_other := Some v\<rparr>)"

text \<open>\<^verbatim>\<open>sep.join(xs)\<close> on a list of strings.\<close>

fun join :: "string \<Rightarrow> string list \<Rightarrow> string" where
  "join sep [] = []"
| "join sep [x] = x"
| "join sep (x # y # ys) = x @ sep @ join sep (y # ys)"

text \<open>
  \<^verbatim>\<open>self.q[1][-1][2] = v\<close>: raises \<^verbatim>\<open>IndexError\<close> when \<^verbatim>\<open>q[1]\<close> is still empty, which is
  the case when the first call is not the one with \<^verbatim>\<open>i == 0\<close>.
\<close>

definition q1_last_set2 :: "(int \<times> int \<times> int option \<Rightarrow> int) \<Rightarrow> SVBreakpoints \<Rightarrow> py_error + SVBreakpoints" where
  "q1_last_set2 v self =
     (if bp_q1 self = [] then Inl IndexError
      else (let e = last (bp_q1 self)
            in Inr (self\<lparr>bp_q1 := butlast (bp_q1 self) @ [(fst e, fst (snd e), Some (v e))]\<rparr>)))"

text \<open>
  \<^verbatim>\<open>update_brkpt_info(self, br, i, last_iter)\<close>.  The result is the updated breakpoint
  model together with the segment, on which \<^verbatim>\<open>set_sv_brkpt\<close> has been called.  The four
  statements after the branches are \<open>update_tail\<close>.
\<close>

definition update_tail :: "segment \<Rightarrow> brkpt_key \<Rightarrow> int list \<Rightarrow> bool option \<Rightarrow> SVBreakpoints \<Rightarrow> SVBreakpoints" where
  "update_tail br targetKey tbrkpt filt_rep_start self =
     (let s = ''chr'' @ seq_name_ref br @ '':'' @ join ''-'' (map str_int tbrkpt);
          self1 = self\<lparr>brkptStr := brkptStr self @ [s]\<rparr>;
          self2 = self1\<lparr>bp_r := bp_r self1 @ tbrkpt\<rparr>;
          self3 = self2\<lparr>bp_f := bp_f self2 @ [filt_rep_start]\<rparr>;
          self4 = t_update targetKey (seq_name_ref br, hd tbrkpt) self3
      in self4\<lparr>formatted := formatted self4 @ [s]\<rparr>)"

definition update_brkpt_info ::
  "SVBreakpoints \<Rightarrow> segment \<Rightarrow> nat \<Rightarrow> bool \<Rightarrow> py_error + (SVBreakpoints \<times> segment)" where
  "update_brkpt_info self br i last_iter =
     (let chrom = ''chr'' @ seq_name_ref br;
          ts = fst (ref_coords br); te = snd (ref_coords br);
          qs = fst (query_coords br); qe = snd (query_coords br);
          targetKey = (if in_target br then Target else Other);
          selfa = self\<lparr>chrs := chrs self @ [seq_name_ref br]\<rparr>;
          selfb = selfa\<lparr>tcoords := tcoords selfa @ [(ts, te)]\<rparr>;
          selfc = selfb\<lparr>qcoords := qcoords selfb @ [(qs, qe)]\<rparr>
      in
      if i = 0 then
        (let self1 = selfc\<lparr>bp_q0 := (max 0 (qs - 1), qe)\<rparr>;
             self2 = self1\<lparr>bp_q1 := bp_q1 self1 @ [(qe, qe - fst (bp_q0 self1), None)]\<rparr>;
             tbrkpt = (if strand br = ''-'' then [ts] else [te]);
             filt_rep_start = Some (fst (filter_reps_edges br));
             self3 = genomicBrkpts_append targetKey (Brkpt1 chrom (hd tbrkpt)) self2;
             br1 = set_sv_brkpt (Brkpt1 chrom (hd tbrkpt)) ''rearrangement'' targetKey br
         in Inr (update_tail br targetKey tbrkpt filt_rep_start self3, br1))
      else if last_iter then
        ebind (q1_last_set2 (\<lambda>e. qe - fst e) selfc) (\<lambda>self1.
          let self2 = self1\<lparr>bp_q1 := bp_q1 self1 @ [(qs, qs - fst (bp_q0 self1), Some (qe - qs))]\<rparr>;
              tbrkpt = (if strand br = ''-'' then [te] else [ts]);
              filt_rep_start = (if strand br = ''-'' then Some (snd (filter_reps_edges br))
                                else Some (fst (filter_reps_edges br)));
              self3 = genomicBrkpts_append targetKey (Brkpt1 chrom (hd tbrkpt)) self2;
              br1 = set_sv_brkpt (Brkpt1 chrom (hd tbrkpt)) ''rearrangement'' targetKey br
          in Inr (update_tail br targetKey tbrkpt filt_rep_start self3, br1))
      else
        ebind (q1_last_set2 (\<lambda>e. qe - fst (snd e)) selfc) (\<lambda>self1.
          let self2 = self1\<lparr>bp_q1 := bp_q1 self1 @ [(qs, qs - fst (bp_q0 self1), Some (qe - qs))]\<rparr>;
              self3 = self2\<lparr>bp_q1 := bp_q1 self2 @ [(qe, qe - qs, None)]\<rparr>;
              self4 = self3\<lparr>bp_q0 := (qs, qe)\<rparr>;
              self5 = genomicBrkpts_append targetKey (Brkpt2 chrom ts te) self4;
              br1 = (if strand br = ''+''
                     then set_sv_brkpt (Brkpt2 chrom ts te) ''rearrangement'' targetKey br
                     else br)
          in
          if strand br = ''-'' then
            Inr (update_tail br targetKey [te, ts] (Some (snd (filter_reps_edges br)))
                   (genomicBrkpts_append targetKey (Brkpt2 chrom te ts) self5),
                 set_sv_brkpt (Brkpt2 chrom te ts) ''rearrangement'' targetKey br1)
          else
            Inr (update_tail br targetKey [ts, te] None self5, br1)))"

text \<open>\<^verbatim>\<open>diff_chr\<close>: \<^verbatim>\<open>len(set(self.chrs)) == 1\<close> answers \<^verbatim>\<open>False\<close>, anything else \<^verbatim>\<open>True\<close>.\<close>

definition diff_chr :: "SVBreakpoints \<Rightarrow> bool" where
  "diff_chr self = (if card (set (chrs self)) = 1 then False else True)"

section \<open>Event aggregator: class \<^verbatim>\<open>SVEvent\<close>\<close>

text \<open>
  Name resolution.  \<open>module_names\<close> are the names bound at the top level of
  \<^verbatim>\<open>sv_caller.py\<close> (imports, dunder assignments and the five classes).  A name that is
  neither a local of the running function nor one of these (nor a builtin) raises
  \<^verbatim>\<open>NameError\<close>.
\<close>

definition module_names :: "string list" where
  "module_names =
     [''sys'', ''os'', ''math'', ''pysam'', ''utils'',
      ''__author__'', ''__copyright__'', ''__email__'', ''__license__'',
      ''FilterValues'', ''SVResult'', ''SVBreakpoints'', ''SVEvent'', ''ContigCaller'']"

definition resolve_name :: "string list \<Rightarrow> string \<Rightarrow> py_error + unit" where
  "resolve_name locals n =
     (if n \<in> set locals \<or> n \<in> set module_names then Inr () else Inl (NameError n))"

text \<open>The contig collaborator: its sequence and the result of \<^verbatim>\<open>get_var_reads('sv')\<close>.\<close>

record contig =
  seq :: string
  var_reads_sv :: var_reads

text \<open>Of \<^verbatim>\<open>SVResult\<close> the event only reads \<^verbatim>\<open>strands\<close>, which \<^verbatim>\<open>__init__\<close> sets to \<^verbatim>\<open>None\<close>.\<close>

record SVResult =
  strands :: "string list option"

text \<open>
  The attributes assigned by \<^verbatim>\<open>SVEvent.__init__\<close>, with \<open>ev_\<close> prefixed where the name is
  already a field of another record.  The last two fields are the attributes
  \<^verbatim>\<open>blatResults\<close> and \<^verbatim>\<open>blatResultsSorted\<close>, which several methods read but which no
  statement of the class ever assigns (\<^verbatim>\<open>add\<close> appends to \<^verbatim>\<open>segmentResults\<close>; the
  assignment of \<^verbatim>\<open>blatResultsSorted\<close> is commented out): \<open>None\<close> means that the instance
  has no such attribute, and reading it raises \<^verbatim>\<open>AttributeError\<close>.
\<close>

record SVEvent =
  ev_svType :: string
  ev_svSubtype :: string
  segmentResults :: "segment list"
  annotated :: bool
  qlen :: int
  nmatch :: int
  ev_in_target :: bool
  ev_contig :: contig
  querySize :: "int option"
  queryCoverage :: "int list"
  brkpts :: SVBreakpoints
  rearrDesc :: "string option list option"
  resultValues :: SVResult
  blatResults :: "(int \<times> segment) list option"
  blatResultsSorted :: "(segment \<times> int) list option"

text \<open>
  \<^verbatim>\<open>add(self, realignResult)\<close>.  After the append, the loop header
  \<^verbatim>\<open>range(realignResult.qstart, realignResults.qend)\<close> evaluates the name
  \<^verbatim>\<open>realignResults\<close> (with a final s); the locals are \<^verbatim>\<open>self\<close> and \<^verbatim>\<open>realignResult\<close>.
  Were the name a module-level one, the attribute \<^verbatim>\<open>qend\<close> would be missing on it.  The
  statements after the loop header are therefore never executed.
\<close>

definition add :: "SVEvent \<Rightarrow> segment \<Rightarrow> py_error + SVEvent" where
  "add self realignResult =
     (let self1 = self\<lparr>segmentResults := segmentResults self @ [realignResult]\<rparr>;
          range_start = qstart realignResult
      in ebind (resolve_name [''self'', ''realignResult''] ''realignResults'')
           (\<lambda>_. Inl (AttributeError ''qend'')))"

definition SVEvent_new :: "contig \<Rightarrow> string \<Rightarrow> SVEvent" where
  "SVEvent_new c svt =
     \<lparr>ev_svType = svt, ev_svSubtype = [], segmentResults = [], annotated = False,
      qlen = 0, nmatch = 0, ev_in_target = False, ev_contig = c, querySize = None,
      queryCoverage = replicate (length (seq c)) 0, brkpts = SVBreakpoints_init,
      rearrDesc = None, resultValues = \<lparr>strands = None\<rparr>,
      blatResults = None, blatResultsSorted = None\<rparr>"

text \<open>\<^verbatim>\<open>SVEvent(realignResult, contig, svType)\<close>: the constructor ends with \<^verbatim>\<open>self.add\<close>.\<close>

definition SVEvent_init :: "segment \<Rightarrow> contig \<Rightarrow> string \<Rightarrow> py_error + SVEvent" where
  "SVEvent_init realignResult c svt = add (SVEvent_new c svt) realignResult"

definition result_valid :: "SVEvent \<Rightarrow> py_error + bool" where
  "result_valid self =
     (case blatResults self of
        None \<Rightarrow> Inl (AttributeError ''blatResults'')
      | Some brs \<Rightarrow> Inr (if length brs > 1 \<and> ev_in_target self then True else False))"

definition check_previous_add :: "SVEvent \<Rightarrow> segment \<Rightarrow> py_error + SVEvent" where
  "check_previous_add self br =
     (let ncoords = query_coords br in
      case blatResultsSorted self of
        None \<Rightarrow> Inl (AttributeError ''blatResultsSorted'')
      | Some srt \<Rightarrow>
          if srt = [] then Inl IndexError
          else
            (let prev_br = fst (last srt); prev_nmatch = snd (last srt);
                 prev_coords = query_coords prev_br
             in
             if fst ncoords = fst prev_coords \<and> snd ncoords = snd prev_coords then
               (let n_nmatch = nmatch_total br in
                if abs (prev_nmatch - n_nmatch) < 10 then
                  (if \<not> in_target prev_br \<and> in_target br then
                     (let self1 = self\<lparr>blatResultsSorted := Some (butlast srt @ [(br, n_nmatch)])\<rparr>
                      in case blatResults self1 of
                           None \<Rightarrow> Inl (AttributeError ''blatResults'')
                         | Some brs \<Rightarrow>
                             if brs = [] then Inl IndexError
                             else Inr (self1\<lparr>blatResults := Some (butlast brs @ [(fst ncoords, br)]),
                                              ev_in_target := True\<rparr>))
                   else Inr self)
                else Inr self)
             else Inr self))"

text \<open>
  \<^verbatim>\<open>get_startend_missing_query_coverage\<close>.  The two loops count the leading run of zero
  entries of \<^verbatim>\<open>queryCoverage\<close> and the leading run of the reversed list.  The float
  expression is read in exact rational arithmetic; \<open>py_round\<close> is Python 2's
  \<^verbatim>\<open>round\<close> (halves away from zero) and \<open>py_round_to\<close> its two-argument form.
\<close>

fun zero_run :: "int list \<Rightarrow> nat" where
  "zero_run [] = 0"
| "zero_run (i # rest) = (if i = 0 then 1 + zero_run rest else 0)"

definition py_round :: "rat \<Rightarrow> rat" where
  "py_round x = (if x \<ge> 0 then of_int \<lfloor>x + 1 / 2\<rfloor> else of_int \<lceil>x - 1 / 2\<rceil>)"

definition py_round_to :: "rat \<Rightarrow> nat \<Rightarrow> rat" where
  "py_round_to x n = py_round (x * 10 ^ n) / 10 ^ n"

definition get_startend_missing_query_coverage :: "SVEvent \<Rightarrow> py_error + rat" where
  "get_startend_missing_query_coverage self =
     (let missingCov = zero_run (queryCoverage self) + zero_run (rev (queryCoverage self))
      in if length (seq (ev_contig self)) = 0 then Inl ZeroDivisionError
         else Inr (py_round_to
                     ((of_nat missingCov / of_nat (length (seq (ev_contig self)))) * 100) 4))"

text \<open>
  \<^verbatim>\<open>define_rearr\<close>.  The slice \<^verbatim>\<open>xs[(i - 1):(i + 1)]\<close> for \<open>i \<ge> 1\<close> is \<open>py_slice2\<close>;
  slicing \<^verbatim>\<open>strands\<close> while it is still \<^verbatim>\<open>None\<close> raises \<^verbatim>\<open>TypeError\<close>.
  The dictionary \<^verbatim>\<open>rearrHits\<close> has at most the two keys \<^verbatim>\<open>'rearrangement'\<close> and
  \<^verbatim>\<open>'indel'\<close> (the values of \<^verbatim>\<open>vals['svType']\<close>); it is kept as the two lists of hits,
  a key being present when its list is non-empty.  The order in which
  \<^verbatim>\<open>for rearr in rearrHits\<close> visits two keys is fixed by the interpreter's hashing and
  is the parameter \<open>indel_first\<close>.
\<close>

definition py_slice2 :: "'a list \<Rightarrow> nat \<Rightarrow> 'a list" where
  "py_slice2 xs i = take 2 (drop (i - 1) xs)"

fun classify_pairs ::
  "var_reads \<Rightarrow> (int \<times> int) list \<Rightarrow> (int \<times> int) list \<Rightarrow> string list option \<Rightarrow> int list
     \<Rightarrow> nat list \<Rightarrow> rearr_values list \<times> rearr_values list
     \<Rightarrow> py_error + (rearr_values list \<times> rearr_values list)" where
  "classify_pairs varReads tc qc strs bps [] hits = Inr hits"
| "classify_pairs varReads tc qc strs bps (i # rest) hits =
     (case strs of
        None \<Rightarrow> Inl (TypeError ''NoneType object has no attribute __getitem__'')
      | Some ss \<Rightarrow>
          ebind (which_rearr varReads (py_slice2 tc i) (py_slice2 qc i) (py_slice2 ss i)
                   (py_slice2 bps i))
            (\<lambda>vals.
               if hit vals then
                 (if svType vals = ''rearrangement''
                  then classify_pairs varReads tc qc strs bps rest (fst hits @ [vals], snd hits)
                  else classify_pairs varReads tc qc strs bps rest (fst hits, snd hits @ [vals]))
               else classify_pairs varReads tc qc strs bps rest hits))"

text \<open>
  The second loop of \<^verbatim>\<open>define_rearr\<close>; its state is
  \<open>(svSubType, rs, rearrHit, self.rearrDesc)\<close>.
\<close>

type_synonym rearr_state = "string option \<times> int \<times> bool \<times> string option list option"

fun visit_rearrangement :: "rearr_values list \<Rightarrow> rearr_state \<Rightarrow> py_error + rearr_state" where
  "visit_rearrangement [] st = Inr st"
| "visit_rearrangement (rr # rest) (sub, rs, rearrHit, desc) =
     (if \<not> rearrHit then
        (case discReadCount rr of
           None \<Rightarrow> Inl (TypeError ''int() argument must be a string or a number'')
         | Some n \<Rightarrow> visit_rearrangement rest (svSubType rr, n, True, desc))
      else
        (let desc1 = (case desc of None \<Rightarrow> [None] | Some d \<Rightarrow> d)
         in visit_rearrangement rest (None, rs, rearrHit, Some (desc1 @ [svSubType rr]))))"

fun visit_indel :: "rearr_values list \<Rightarrow> rearr_state \<Rightarrow> py_error + rearr_state" where
  "visit_indel [] st = Inr st"
| "visit_indel (rr # rest) (sub, rs, rearrHit, desc) =
     (let desc1 = (case desc of None \<Rightarrow> [] | Some d \<Rightarrow> d)
      in case indelSize rr of
           None \<Rightarrow> Inl (KeyError ''indelSize'')
         | Some lbl \<Rightarrow> visit_indel rest (sub, rs, rearrHit, Some (desc1 @ [Some lbl])))"

definition define_rearr ::
  "bool \<Rightarrow> SVEvent \<Rightarrow> py_error + ((string \<times> string option \<times> int) \<times> SVEvent)" where
  "define_rearr indel_first self =
     (let varReads = var_reads_sv (ev_contig self);
          strs = strands (resultValues self);
          bps = bp_r (brkpts self);
          tc = tcoords (brkpts self);
          qc = qcoords (brkpts self)
      in
      case blatResults self of
        None \<Rightarrow> Inl (AttributeError ''blatResults'')
      | Some brs \<Rightarrow>
          ebind (classify_pairs varReads tc qc strs bps [1 ..< length brs] ([], []))
            (\<lambda>rearrHits.
               ebind (if indel_first
                      then ebind (visit_indel (snd rearrHits) (None, 0, False, rearrDesc self))
                             (visit_rearrangement (fst rearrHits))
                      else ebind (visit_rearrangement (fst rearrHits)
                                    (None, 0, False, rearrDesc self))
                             (visit_indel (snd rearrHits)))
                 (\<lambda>st. case st of (sub, rs, rearrHit, desc) \<Rightarrow>
                    Inr ((''rearrangement'', sub,
                          (if sub = None then check_other_readcounts varReads bps else rs)),
                         self\<lparr>rearrDesc := desc\<rparr>))))"

section \<open>Driver: class \<^verbatim>\<open>ContigCaller\<close>\<close>

text \<open>
  Of the realignment collaborator the rearrangement path reads \<^verbatim>\<open>qsize\<close>; \<^verbatim>\<open>clippedQs\<close>
  and \<^verbatim>\<open>svEvent\<close> are the caller's own attributes.
\<close>

record ContigCaller =
  realignment_qsize :: int
  cc_contig :: contig
  clippedQs :: "segment list"
  svEvent :: "SVEvent option"

text \<open>
  \<^verbatim>\<open>check_add_br(self, realignResult, gapStart, gapEnd)\<close>, the method as it is defined.
  The result carries the segment, on which \<^verbatim>\<open>set_segment_overlap\<close> has been called.  The
  float division raises \<^verbatim>\<open>ZeroDivisionError\<close> for an empty query span; the debug log
  line reads \<^verbatim>\<open>self.svEvent.in_target\<close> before the test.
\<close>

definition check_add_br ::
  "ContigCaller \<Rightarrow> segment \<Rightarrow> int \<Rightarrow> int \<Rightarrow> py_error + (bool \<times> segment)" where
  "check_add_br self realignResult gapStart gapEnd =
     (if qend realignResult - qstart realignResult = 0 then Inl ZeroDivisionError
      else
        (let overlapPecent =
               py_round ((of_int (min (qend realignResult) gapEnd - max (qstart realignResult) gapStart)
                          / of_int (qend realignResult - qstart realignResult)) * 100);
             overlapRight = (if qend realignResult > gapEnd
                             then abs (qend realignResult - gapEnd) else 0);
             overlapLeft = (if qstart realignResult < gapStart
                            then abs (qstart realignResult - gapStart) else 0);
             realignResult1 = set_segment_overlap overlapLeft overlapRight realignResult;
             maxSegmentOverlap = max overlapRight overlapLeft
         in case svEvent self of
              None \<Rightarrow> Inl (AttributeError ''in_target'')
            | Some ev \<Rightarrow>
                Inr (if overlapPecent \<ge> 50 \<and>
                        (maxSegmentOverlap < 15 \<or> (in_target realignResult \<and> ev_in_target ev))
                     then True else False,
                     realignResult1)))"

text \<open>
  Calling a bound method: the number of positional arguments must equal the number of
  parameters after \<^verbatim>\<open>self\<close>, else \<^verbatim>\<open>TypeError\<close>.
\<close>

definition call_arity :: "string \<Rightarrow> nat \<Rightarrow> nat \<Rightarrow> py_error + unit" where
  "call_arity name declared given =
     (if declared = given then Inr ()
      else Inl (TypeError (name @ ''() takes exactly '' @ str_nat (declared + 1)
                           @ '' arguments ('' @ str_nat (given + 1) @ '' given)'')))"

text \<open>
  The body of the loop of \<^verbatim>\<open>iter_gaps\<close> for one gap; the loop state is
  \<open>(self, realignResult, new_gaps, hit)\<close> (the flag is \<open>was_hit\<close>; the segment is part of
  the state because \<^verbatim>\<open>check_add_br\<close> writes its overlap on it).  The call site passes
  five positional arguments
  \<^verbatim>\<open>(realignResult.qstart, realignResult.qend, gapStart, gapEnd, realignResult)\<close> to
  \<^verbatim>\<open>check_add_br\<close>, which declares three.
\<close>

type_synonym gaps_state = "ContigCaller \<times> segment \<times> (int \<times> int) list \<times> bool"

definition iter_gaps_step :: "nat \<Rightarrow> int \<times> int \<Rightarrow> gaps_state \<Rightarrow> py_error + gaps_state" where
  "iter_gaps_step iterIdx gap st =
     (case st of (self, realignResult, new_gaps, was_hit) \<Rightarrow>
      let gapStart = fst gap; gapEnd = snd gap;
          startWithinGap = (qstart realignResult \<ge> gapStart \<and> qstart realignResult \<le> gapEnd);
          endWithinGap = (qend realignResult \<le> gapEnd \<and> qend realignResult \<ge> gapStart);
          gapEdgeDistStart = (qstart realignResult \<le> gapStart
                               \<and> gapStart - qstart realignResult < 15);
          gapEdgeDistEnd = (qend realignResult \<ge> gapEnd \<and> qend realignResult - gapEnd < 15)
      in
      if startWithinGap \<or> endWithinGap
         \<or> (gapEdgeDistStart \<and> (endWithinGap \<or> gapEdgeDistEnd))
         \<or> (gapEdgeDistEnd \<and> (startWithinGap \<or> gapEdgeDistStart))
      then
        (let ngap =
               (if qstart realignResult > gapStart \<and> qstart realignResult - 1 - gapStart > 10
                then [(gapStart, qstart realignResult - 1)] else [])
               @ (if qend realignResult < gapEnd \<and> gapEnd - qend realignResult + 1 > 10
                  then [(qend realignResult + 1, gapEnd)] else [])
         in
         if iterIdx = 0 then
           ebind (SVEvent_init realignResult (cc_contig self) ''rearrangement'')
             (\<lambda>ev. Inr (self\<lparr>svEvent := Some ev\<rparr>, realignResult, new_gaps @ ngap, True))
         else
           ebind (call_arity ''check_add_br'' 3 5)
             (\<lambda>_. ebind (check_add_br self realignResult gapStart gapEnd)
                (\<lambda>res.
                   if fst res then
                     (case svEvent self of
                        None \<Rightarrow> Inl (AttributeError ''add'')
                      | Some ev \<Rightarrow>
                          ebind (add ev (snd res))
                            (\<lambda>ev1. Inr (self\<lparr>svEvent := Some ev1\<rparr>, snd res,
                                         new_gaps @ ngap, True)))
                   else Inr (self, snd res, new_gaps @ [gap], was_hit))))
      else Inr (self, realignResult, new_gaps @ [gap], was_hit))"

fun iter_gaps_loop :: "nat \<Rightarrow> (int \<times> int) list \<Rightarrow> gaps_state \<Rightarrow> py_error + gaps_state" where
  "iter_gaps_loop iterIdx [] st = Inr st"
| "iter_gaps_loop iterIdx (gap # gaps) st =
     ebind (iter_gaps_step iterIdx gap st) (\<lambda>st1. iter_gaps_loop iterIdx gaps st1)"

definition iter_gaps ::
  "ContigCaller \<Rightarrow> (int \<times> int) list \<Rightarrow> segment \<Rightarrow> nat
     \<Rightarrow> py_error + (ContigCaller \<times> (int \<times> int) list)" where
  "iter_gaps self gaps realignResult iterIdx =
     ebind (iter_gaps_loop iterIdx gaps (self, realignResult, [], False))
       (\<lambda>st. case st of (self1, realignResult1, new_gaps, was_hit) \<Rightarrow>
          if \<not> was_hit then
            (case svEvent self1 of
               None \<Rightarrow> Inl (AttributeError ''check_previous_add'')
             | Some ev \<Rightarrow>
                 ebind (check_previous_add ev realignResult1)
                   (\<lambda>ev1. Inr (self1\<lparr>svEvent := Some ev1\<rparr>, new_gaps)))
          else Inr (self1, new_gaps))"

text \<open>
  \<^verbatim>\<open>check_svs\<close>.  \<^verbatim>\<open>mergedClip[1]\<close> is either \<^verbatim>\<open>None\<close> or a reference to the one event
  object held in \<^verbatim>\<open>self.svEvent\<close> (an event is only created at index 0), so it is kept
  as a flag.  The loop state is \<open>(self, gaps, mergedClip)\<close>.
\<close>

fun check_svs_loop ::
  "nat \<Rightarrow> segment list \<Rightarrow> ContigCaller \<times> (int \<times> int) list \<times> (int \<times> bool)
     \<Rightarrow> py_error + (ContigCaller \<times> (int \<times> int) list \<times> (int \<times> bool))" where
  "check_svs_loop i [] st = Inr st"
| "check_svs_loop i (realignResult # rest) (self, gaps, mergedClip) =
     ebind (iter_gaps self gaps realignResult i)
       (\<lambda>res.
          case svEvent (fst res) of
            None \<Rightarrow> Inl (AttributeError ''qlen'')
          | Some ev \<Rightarrow>
              check_svs_loop (i + 1) rest
                (fst res, snd res,
                 (if qlen ev > fst mergedClip then (qlen ev, True) else mergedClip)))"

definition check_svs :: "ContigCaller \<Rightarrow> py_error + (bool \<times> ContigCaller)" where
  "check_svs self =
     ebind (if length (clippedQs self) > 1
            then ebind (check_svs_loop 0 (clippedQs self)
                          (self, [(0, realignment_qsize self)], (0, False)))
                   (\<lambda>st. case st of (self1, gaps, mergedClip) \<Rightarrow>
                      Inr (if snd mergedClip then self1 else self1\<lparr>svEvent := None\<rparr>))
            else Inr self)
       (\<lambda>self2.
          case svEvent self2 of
            None \<Rightarrow> Inr (False, self2\<lparr>svEvent := None\<rparr>)
          | Some ev \<Rightarrow>
              ebind (result_valid ev)
                (\<lambda>valid. if valid then Inr (True, self2)
                          else Inr (False, self2\<lparr>svEvent := None\<rparr>)))"

section \<open>Target manager: class \<^verbatim>\<open>TargetManager\<close> of \<^verbatim>\<open>target.py\<close>\<close>

text \<open>
  An instance is its attribute dictionary.  Attribute values are \<^verbatim>\<open>None\<close>, integers,
  strings, or an opaque object (the parameter manager, dictionaries, the
  \<^verbatim>\<open>Variation\<close> object).
\<close>

datatype pyval = PNone | PInt int | PStr string | PObj string

type_synonym instance_dict = "string \<rightharpoonup> pyval"

text \<open>
  The class body binds names to property objects.  \<^verbatim>\<open>@property def n\<close> binds \<open>n\<close> to a
  property with that getter and no setter; \<^verbatim>\<open>@b.setter def n\<close> looks up the property
  currently bound to \<open>b\<close>, copies it with the new setter and binds the copy to \<open>n\<close>, the
  name of the decorated function.
\<close>

datatype getter = Get_start | Get_end | Get_chrom | Get_values | Get_fnc

datatype setter = Set_start | Set_end | Set_chrom

record property =
  fget :: getter
  fset :: "setter option"

datatype class_stmt =
    Property_def string getter
  | Setter_def string string setter

fun exec_class_stmt ::
  "(string \<rightharpoonup> property) \<Rightarrow> class_stmt \<Rightarrow> py_error + (string \<rightharpoonup> property)" where
  "exec_class_stmt ns (Property_def n g) = Inr (ns(n \<mapsto> \<lparr>fget = g, fset = None\<rparr>))"
| "exec_class_stmt ns (Setter_def b n st) =
     (case ns b of
        None \<Rightarrow> Inl (NameError b)
      | Some p \<Rightarrow> Inr (ns(n \<mapsto> p\<lparr>fset := Some st\<rparr>)))"

fun exec_class_body ::
  "(string \<rightharpoonup> property) \<Rightarrow> class_stmt list \<Rightarrow> py_error + (string \<rightharpoonup> property)" where
  "exec_class_body ns [] = Inr ns"
| "exec_class_body ns (c # cs) = ebind (exec_class_stmt ns c) (\<lambda>ns1. exec_class_body ns1 cs)"

text \<open>
  The decorated definitions of \<^verbatim>\<open>TargetManager\<close> in source order (lines 404 to 447).  The
  fourth one is \<^verbatim>\<open>@end.setter\<close> above \<^verbatim>\<open>def start(self, end)\<close>.
\<close>

definition TargetManager_body :: "class_stmt list" where
  "TargetManager_body =
     [Property_def ''start'' Get_start,
      Setter_def ''start'' ''start'' Set_start,
      Property_def ''end'' Get_end,
      Setter_def ''end'' ''start'' Set_end,
      Property_def ''chrom'' Get_chrom,
      Setter_def ''chrom'' ''chrom'' Set_chrom,
      Property_def ''values'' Get_values,
      Property_def ''fnc'' Get_fnc]"

definition TargetManager_properties :: "py_error + (string \<rightharpoonup> property)" where
  "TargetManager_properties = exec_class_body Map.empty TargetManager_body"

text \<open>
  \<^verbatim>\<open>int(x)\<close> on an attribute value.  The interval bounds are integers here; parsing a
  numeric string is not modelled and is reported as \<^verbatim>\<open>ValueError\<close>.
\<close>

fun py_int :: "pyval \<Rightarrow> py_error + int" where
  "py_int (PInt n) = Inr n"
| "py_int PNone = Inl (TypeError ''int() argument must be a string or a number'')"
| "py_int (PStr s) = Inl (ValueError ''invalid literal for int()'')"
| "py_int (PObj s) = Inl (TypeError ''int() argument must be a string or a number'')"

text \<open>
  The bodies of the three setter functions.  Inside the class, \<^verbatim>\<open>self.__x\<close> is the
  attribute \<^verbatim>\<open>_TargetManager__x\<close>; each body starts by reading it, and only these bodies
  ever assign it.  \<open>bounded_set\<close> is the common shape of the \<^verbatim>\<open>start\<close> and \<^verbatim>\<open>end\<close>
  setters (both keep the smaller value).
\<close>

definition bounded_set :: "string \<Rightarrow> pyval \<Rightarrow> instance_dict \<Rightarrow> py_error + instance_dict" where
  "bounded_set a v d =
     (case d a of
        None \<Rightarrow> Inl (AttributeError a)
      | Some cur \<Rightarrow>
          if cur = PNone then ebind (py_int v) (\<lambda>n. Inr (d(a \<mapsto> PInt n)))
          else (case (v, cur) of
                  (PInt x, PInt y) \<Rightarrow> if x < y then Inr (d(a \<mapsto> PInt x)) else Inr d
                | _ \<Rightarrow> Inr d))"

fun run_setter :: "setter \<Rightarrow> pyval \<Rightarrow> instance_dict \<Rightarrow> py_error + instance_dict" where
  "run_setter Set_start v d = bounded_set ''_TargetManager__start'' v d"
| "run_setter Set_end v d = bounded_set ''_TargetManager__end'' v d"
| "run_setter Set_chrom v d =
     (case d ''_TargetManager__chrom'' of
        None \<Rightarrow> Inl (AttributeError ''_TargetManager__chrom'')
      | Some cur \<Rightarrow> if cur = PNone then Inr (d(''_TargetManager__chrom'' \<mapsto> v)) else Inr d)"

text \<open>
  Attribute assignment \<^verbatim>\<open>self.n = v\<close>.  For an instance of a new-style class (every class
  in Python 3, a class deriving from \<^verbatim>\<open>object\<close> in Python 2) a property bound to \<open>n\<close> in
  the class intercepts the assignment: its setter runs, or \<^verbatim>\<open>AttributeError\<close> is raised
  when it has none.  For an instance of a classic class (a Python 2 class statement
  without bases) assignment never consults the class and stores into the instance
  dictionary.
\<close>

datatype class_model = Classic | NewStyle

definition py_setattr ::
  "class_model \<Rightarrow> (string \<rightharpoonup> property) \<Rightarrow> string \<Rightarrow> pyval \<Rightarrow> instance_dict
     \<Rightarrow> py_error + instance_dict" where
  "py_setattr cm props n v d =
     (case cm of
        Classic \<Rightarrow> Inr (d(n \<mapsto> v))
      | NewStyle \<Rightarrow>
          (case props n of
             None \<Rightarrow> Inr (d(n \<mapsto> v))
           | Some p \<Rightarrow>
               (case fset p of
                  None \<Rightarrow> Inl (AttributeError ''can't set attribute'')
                | Some st \<Rightarrow> run_setter st v d)))"

text \<open>
  The parameter manager is external.  The record holds what the constructor obtains from
  it: the value of \<^verbatim>\<open>int(params.get_param('readLen'))\<close>, the intervals returned by
  \<^verbatim>\<open>get_target_intervals(name)\<close> as \<open>(values[0], int(values[1]), int(values[2]))\<close>, and the
  outcome of the directory and file-name part of the method \<^verbatim>\<open>TargetManager.setup\<close> (\<^verbatim>\<open>add_path\<close> with
  \<^verbatim>\<open>os.makedirs\<close>), which touches the file system.
\<close>

record params =
  readLen_int :: "py_error + int"
  get_target_intervals :: "string \<Rightarrow> (string \<times> int \<times> int) list"
  setup_paths :: "py_error + unit"

fun setup_intervals ::
  "class_model \<Rightarrow> (string \<rightharpoonup> property) \<Rightarrow> (string \<times> int \<times> int) list \<Rightarrow> instance_dict
     \<Rightarrow> py_error + instance_dict" where
  "setup_intervals cm props [] d = Inr d"
| "setup_intervals cm props (v # vs) d =
     ebind (py_setattr cm props ''chrom'' (PStr (fst v)) d) (\<lambda>d1.
     ebind (py_setattr cm props ''start'' (PInt (fst (snd v))) d1) (\<lambda>d2.
     ebind (py_setattr cm props ''end'' (PInt (snd (snd v))) d2) (\<lambda>d3.
       setup_intervals cm props vs d3)))"

definition TargetManager_setup :: "class_model \<Rightarrow> (string \<rightharpoonup> property) \<Rightarrow> string \<Rightarrow> params \<Rightarrow> instance_dict
     \<Rightarrow> py_error + instance_dict" where
  "TargetManager_setup cm props name ps d =
     ebind (setup_intervals cm props (get_target_intervals ps name) d) (\<lambda>d1.
     ebind (setup_paths ps) (\<lambda>_. Inr d1))"

text \<open>\<^verbatim>\<open>TargetManager.__init__(self, name, params)\<close>, statement by statement.\<close>

definition TargetManager_init ::
  "class_model \<Rightarrow> string \<Rightarrow> params \<Rightarrow> py_error + instance_dict" where
  "TargetManager_init cm name ps =
     ebind TargetManager_properties (\<lambda>props.
     ebind (py_setattr cm props ''loggingName'' (PStr ''breakmer.processor.target'') Map.empty) (\<lambda>d1.
     ebind (py_setattr cm props ''params'' (PObj ''params'') d1) (\<lambda>d2.
     ebind (py_setattr cm props ''name'' (PStr name) d2) (\<lambda>d3.
     ebind (py_setattr cm props ''chrom'' PNone d3) (\<lambda>d4.
     ebind (py_setattr cm props ''start'' PNone d4) (\<lambda>d5.
     ebind (py_setattr cm props ''end'' PNone d5) (\<lambda>d6.
     ebind (py_setattr cm props ''paths'' (PObj ''dict'') d6) (\<lambda>d7.
     ebind (py_setattr cm props ''files'' (PObj ''dict'') d7) (\<lambda>d8.
     ebind (readLen_int ps) (\<lambda>n.
     ebind (py_setattr cm props ''readLen'' (PInt n) d8) (\<lambda>d9.
     ebind (py_setattr cm props ''variation'' (PObj ''Variation'') d9) (\<lambda>d10.
     ebind (py_setattr cm props ''regionBuffer'' (PInt 200) d10) (\<lambda>d11.
       TargetManager_setup cm props name ps d11)))))))))))))"

text \<open>
  \<^verbatim>\<open>class TargetManager:\<close> has no base classes.  Under Python 2, the interpreter of this
  code base, that makes it a classic class.
\<close>

definition class_model_of :: "string list \<Rightarrow> class_model" where
  "class_model_of bases = (if bases = [] then Classic else NewStyle)"

definition TargetManager_bases :: "string list" where
  "TargetManager_bases = []"

definition TargetManager_new :: "string \<Rightarrow> params \<Rightarrow> py_error + instance_dict" where
  "TargetManager_new name ps = TargetManager_init (class_model_of TargetManager_bases) name ps"

section \<open>Concrete inputs\<close>

text \<open>Fixed inputs at which the closed theorems below evaluate the definitions.\<close>

definition ex_var_reads :: var_reads where
  "ex_var_reads = \<lparr>check_inv_readcounts = (\<lambda>_. 3), check_td_readcounts = (\<lambda>_. 4),
                    check_other_readcounts = (\<lambda>_. 5)\<rparr>"

definition ex_contig :: contig where
  "ex_contig = \<lparr>seq = ''ACGT'', var_reads_sv = ex_var_reads\<rparr>"

text \<open>Two clipped segments outside the target region, covering a query of length 100.\<close>

definition ex_seg_a :: segment where
  "ex_seg_a =
     \<lparr>qstart = 0, qend = 50, query_coords = (0, 50), ref_coords = (100, 200),
      seq_name_ref = ''1'', strand = ''+'', in_target = False, nmatch_total = 50,
      query_span = 50, seq_size_query = 100, filter_reps_edges = (False, False),
      seg_overlap = (0, 0), sv_brkpts = []\<rparr>"

definition ex_seg_b :: segment where
  "ex_seg_b =
     \<lparr>qstart = 50, qend = 100, query_coords = (50, 100), ref_coords = (300, 400),
      seq_name_ref = ''1'', strand = ''-'', in_target = False, nmatch_total = 50,
      query_span = 50, seq_size_query = 100, filter_reps_edges = (False, False),
      seg_overlap = (0, 0), sv_brkpts = []\<rparr>"

definition ex_seg_c :: segment where
  "ex_seg_c =
     \<lparr>qstart = 100, qend = 150, query_coords = (100, 150), ref_coords = (250, 350),
      seq_name_ref = ''1'', strand = ''-'', in_target = False, nmatch_total = 50,
      query_span = 50, seq_size_query = 150, filter_reps_edges = (False, False),
      seg_overlap = (0, 0), sv_brkpts = []\<rparr>"

definition ex_caller_not_in_target :: ContigCaller where
  "ex_caller_not_in_target =
     \<lparr>realignment_qsize = 100, cc_contig = ex_contig, clippedQs = [ex_seg_a, ex_seg_b],
      svEvent = None\<rparr>"

text \<open>An in-target segment over the query range 0 to 400, and a caller that holds an event.\<close>

definition ex_seg_wide :: segment where
  "ex_seg_wide =
     \<lparr>qstart = 0, qend = 400, query_coords = (0, 400), ref_coords = (1000, 1400),
      seq_name_ref = ''1'', strand = ''+'', in_target = True, nmatch_total = 400,
      query_span = 400, seq_size_query = 400, filter_reps_edges = (False, False),
      seg_overlap = (0, 0), sv_brkpts = []\<rparr>"

definition ex_event_in_target :: SVEvent where
  "ex_event_in_target = (SVEvent_new ex_contig ''rearrangement'')\<lparr>ev_in_target := True\<rparr>"

definition ex_caller_with_event :: ContigCaller where
  "ex_caller_with_event =
     \<lparr>realignment_qsize = 400, cc_contig = ex_contig, clippedQs = [],
      svEvent = Some ex_event_in_target\<rparr>"

text \<open>
  An event of the three segments \<open>ex_seg_a\<close>, \<open>ex_seg_b\<close>, \<open>ex_seg_c\<close> on one chromosome:
  forward \<open>[100,200]\<close>, reverse \<open>[300,400]\<close>, reverse \<open>[250,350]\<close>.  The lists are those that
  three calls of \<open>update_brkpt_info\<close> leave behind (the middle segment contributes the two
  breakpoints 400 and 300).  The first pair is an inversion, the second a tandem
  duplication.
\<close>

definition ex_event_mixed :: SVEvent where
  "ex_event_mixed =
     (SVEvent_new ex_contig ''rearrangement'')
       \<lparr>brkpts := SVBreakpoints_init
          \<lparr>tcoords := [(100, 200), (300, 400), (250, 350)],
           qcoords := [(0, 50), (50, 100), (100, 150)],
           bp_r := [200, 400, 300, 350]\<rparr>,
        resultValues := \<lparr>strands = Some [''+'', ''-'', ''-'']\<rparr>\<rparr>"

text \<open>A first segment and a reverse-strand middle segment for the breakpoint model.\<close>

definition ex_seg_first :: segment where
  "ex_seg_first =
     \<lparr>qstart = 0, qend = 50, query_coords = (0, 50), ref_coords = (1000, 1050),
      seq_name_ref = ''1'', strand = ''+'', in_target = True, nmatch_total = 50,
      query_span = 50, seq_size_query = 150, filter_reps_edges = (False, False),
      seg_overlap = (0, 0), sv_brkpts = []\<rparr>"

definition ex_seg_middle_rev :: segment where
  "ex_seg_middle_rev =
     \<lparr>qstart = 50, qend = 100, query_coords = (50, 100), ref_coords = (100, 200),
      seq_name_ref = ''1'', strand = ''-'', in_target = True, nmatch_total = 50,
      query_span = 50, seq_size_query = 150, filter_reps_edges = (False, False),
      seg_overlap = (0, 0), sv_brkpts = []\<rparr>"

text \<open>Parameters under which every external step of the target constructor succeeds.\<close>

definition ex_params :: params where
  "ex_params =
     \<lparr>readLen_int = Inr 100,
      get_target_intervals = (\<lambda>n. [(''17'', 41196311, 41277500)]),
      setup_paths = Inr ()\<rparr>"

section \<open>The overlap-compatibility rule as the specification words it\<close>



section \<open>Properties of the pairwise classifier\<close>

lemma str_int_40: "str_int 40 = ''40''"
  by (simp add: str_int_def str_nat.simps)

lemma str_int_20: "str_int 20 = ''20''"
  by (simp add: str_int_def str_nat.simps)

text \<open>
  Claim C1.  When the first two reference ranges do not contain one another and the two
  strands are equal, \<open>which_rearr\<close> works with \<open>targetGap = brkpts[1] - brkpts[0]\<close> and
  \<open>queryGap = qcoords[1][0] - qcoords[0][1]\<close> and returns a tandem duplication (with the
  tandem-dup read count) when \<open>targetGap < 0\<close>, otherwise an indel labelled \<open>D\<close> followed
  by \<open>targetGap\<close> when \<open>targetGap > queryGap\<close>, otherwise an indel labelled \<open>I\<close> followed by
  \<open>queryGap\<close>.
\<close>

theorem which_rearr_same_strand:
  assumes "\<not> check_overlap t0 t1" and "s0 = s1"
  shows "which_rearr vr (t0 # t1 # ts) (qa # qb # qs) (s0 # s1 # ss) (b0 # b1 # bs) =
    Inr (let targetGap = b1 - b0; queryGap = fst qb - snd qa in
         if targetGap < 0 then
           rearrValues_init\<lparr>hit := True, svSubType := Some ''tandem_dup'',
             discReadCount := Some (check_td_readcounts vr (b0 # b1 # bs))\<rparr>
         else if targetGap > queryGap then
           rearrValues_init\<lparr>hit := True, svType := ''indel'',
             indelSize := Some (''D'' @ str_int targetGap)\<rparr>
         else
           rearrValues_init\<lparr>hit := True, svType := ''indel'',
             indelSize := Some (''I'' @ str_int queryGap)\<rparr>)"
  using assms by (simp add: which_rearr_def idx_def ebind_def Let_def)

text \<open>
  The specification's first example: reference ranges \<open>[100,200]\<close> then \<open>[150,250]\<close> on the
  same strand, breakpoints 200 and 150, so \<open>targetGap = -50\<close>.
\<close>

theorem which_rearr_same_strand_witness:
  "\<not> check_overlap (100, 200) (150, 250) \<and> ''+'' = ''+'' \<and>
   which_rearr ex_var_reads [(100, 200), (150, 250)] [(0, 50), (50, 100)] [''+'', ''+''] [200, 150] =
     Inr (rearrValues_init\<lparr>hit := True, svSubType := Some ''tandem_dup'',
            discReadCount := Some 4\<rparr>)"
  using which_rearr_same_strand [of "(100, 200)" "(150, 250)" "''+''" "''+''" ex_var_reads
          "[]" "(0, 50)" "(50, 100)" "[]" "[]" 200 150 "[]"]
  by (simp add: check_overlap_def ex_var_reads_def)

text \<open>The two other examples: reference gap 40 with query gap 10, and 5 with 20.\<close>

lemma which_rearr_deletion_example:
  "which_rearr ex_var_reads [(100, 200), (240, 340)] [(0, 50), (60, 110)] [''+'', ''+''] [200, 240] =
     Inr (rearrValues_init\<lparr>hit := True, svType := ''indel'', indelSize := Some ''D40''\<rparr>)"
  by (simp add: which_rearr_def idx_def ebind_def check_overlap_def str_int_40)

lemma which_rearr_insertion_example:
  "which_rearr ex_var_reads [(100, 200), (205, 305)] [(0, 50), (70, 120)] [''+'', ''+''] [200, 205] =
     Inr (rearrValues_init\<lparr>hit := True, svType := ''indel'', indelSize := Some ''I20''\<rparr>)"
  by (simp add: which_rearr_def idx_def ebind_def check_overlap_def str_int_20)

text \<open>
  Claim C2.  On a pair of segments \<open>which_rearr\<close> always returns, and the subtype it
  returns is \<open>inversion\<close> exactly when neither reference range lies within the other and
  the strands differ.  When one range lies within the other the result is the untouched
  initial dictionary, whose \<open>hit\<close> is false, so \<open>define_rearr\<close> records nothing for the
  pair; in every other case \<open>hit\<close> is set.
\<close>

theorem which_rearr_inversion_iff:
  "\<exists>rv. which_rearr vr (t0 # t1 # ts) (qa # qb # qs) (s0 # s1 # ss) (b0 # b1 # bs) = Inr rv
     \<and> (svSubType rv = Some ''inversion'') =
         (\<not> (fst t0 \<ge> fst t1 \<and> snd t0 \<le> snd t1) \<and> \<not> (fst t1 \<ge> fst t0 \<and> snd t1 \<le> snd t0)
          \<and> s0 \<noteq> s1)
     \<and> (if (fst t0 \<ge> fst t1 \<and> snd t0 \<le> snd t1) \<or> (fst t1 \<ge> fst t0 \<and> snd t1 \<le> snd t0)
        then rv = rearrValues_init \<and> \<not> hit rv else hit rv)"
  by (auto simp add: which_rearr_def idx_def ebind_def Let_def check_overlap_def rearrValues_init_def)

theorem which_rearr_inversion_iff_witness:
  "\<exists>rv. which_rearr ex_var_reads [(100, 200), (300, 400)] [(0, 50), (50, 100)] [''+'', ''-''] [200, 300]
          = Inr rv \<and> svSubType rv = Some ''inversion'' \<and> hit rv"
  using which_rearr_inversion_iff [of ex_var_reads "(100, 200)" "(300, 400)" "[]" "(0, 50)" "(50, 100)"
          "[]" "''+''" "''-''" "[]" 200 300 "[]"]
  by simp

section \<open>Properties of the breakpoint model\<close>

lemma diff_chr_eq: "diff_chr b = (card (set (chrs b)) \<noteq> 1)"
  by (simp add: diff_chr_def)

lemma diff_chr_nonempty:
  assumes "chrs b \<noteq> []"
  shows "diff_chr b = (1 < card (set (chrs b)))"
proof -
  have "0 < card (set (chrs b))" using assms by (simp add: card_gt_0_iff)
  then show ?thesis unfolding diff_chr_eq by linarith
qed

lemma update_tail_chrs: "chrs (update_tail br k tb fl b) = chrs b"
  by (cases k) (simp_all add: update_tail_def t_update_def Let_def)

lemma genomicBrkpts_append_chrs: "chrs (genomicBrkpts_append k g b) = chrs b"
  by (cases k) (simp_all add: genomicBrkpts_append_def)

lemma q1_last_set2_chrs: "q1_last_set2 v b = Inr b' \<Longrightarrow> chrs b' = chrs b"
  by (auto simp add: q1_last_set2_def Let_def split: if_splits)

text \<open>Every successful call of \<open>update_brkpt_info\<close> appends the segment's reference name.\<close>

lemma update_brkpt_info_chrs:
  assumes "update_brkpt_info b br i last_iter = Inr (b', br')"
  shows "chrs b' = chrs b @ [seq_name_ref br]"
  using assms
  by (auto simp add: update_brkpt_info_def Let_def ebind_def update_tail_chrs
        genomicBrkpts_append_chrs
      split: if_splits sum.splits dest!: q1_last_set2_chrs)

text \<open>
  Claim C7.  \<open>diff_chr\<close> is true exactly when the number of distinct reference names is
  different from one (\<open>diff_chr_eq\<close>); it agrees with "more than one" on every
  non-empty list (\<open>diff_chr_nonempty\<close>).  On the breakpoint model as constructed, whose
  chromosome list is empty and whose set of names has size 0, it answers true, where
  the claim requires false.
\<close>

theorem diff_chr_empty:
  "chrs SVBreakpoints_init = [] \<and> card (set (chrs SVBreakpoints_init)) = 0
   \<and> diff_chr SVBreakpoints_init = True"
  by (simp add: diff_chr_def SVBreakpoints_init_def)

lemma update_tail_genomicBrkpts:
  "genomicBrkpts (update_tail br k tb fl b) k' = genomicBrkpts b k'"
  by (cases k; cases k') (simp_all add: update_tail_def t_update_def Let_def genomicBrkpts_def)

lemma genomicBrkpts_append_get:
  "genomicBrkpts (genomicBrkpts_append k g b) k' =
     (if k' = k then genomicBrkpts b k' @ [g] else genomicBrkpts b k')"
  by (cases k; cases k') (simp_all add: genomicBrkpts_append_def genomicBrkpts_def)

lemma genomicBrkpts_other_fields:
  "genomicBrkpts (b\<lparr>bp_q1 := x\<rparr>) k = genomicBrkpts b k"
  "genomicBrkpts (b\<lparr>bp_q0 := y\<rparr>) k = genomicBrkpts b k"
  "genomicBrkpts (b\<lparr>chrs := c\<rparr>) k = genomicBrkpts b k"
  "genomicBrkpts (b\<lparr>tcoords := tc\<rparr>) k = genomicBrkpts b k"
  "genomicBrkpts (b\<lparr>qcoords := qc\<rparr>) k = genomicBrkpts b k"
  by (cases k; simp add: genomicBrkpts_def)+

text \<open>
  What a middle segment appends, for any strand: the entry \<open>(chrom, ts, te)\<close> always, and
  after it \<open>(chrom, te, ts)\<close> when the strand is reverse.  A forward middle segment thus
  appends exactly one entry, a reverse one two.
\<close>

lemma update_brkpt_info_middle:
  assumes "i \<noteq> 0" and "\<not> last_iter" and "bp_q1 b \<noteq> []"
  shows "\<exists>b' br'. update_brkpt_info b br i last_iter = Inr (b', br') \<and>
           genomicBrkpts b' k =
             (if k = (if in_target br then Target else Other)
              then genomicBrkpts b k
                   @ [Brkpt2 (''chr'' @ seq_name_ref br) (fst (ref_coords br)) (snd (ref_coords br))]
                   @ (if strand br = ''-''
                      then [Brkpt2 (''chr'' @ seq_name_ref br) (snd (ref_coords br)) (fst (ref_coords br))]
                      else [])
              else genomicBrkpts b k)"
  using assms
  by (simp add: update_brkpt_info_def Let_def ebind_def q1_last_set2_def
        update_tail_genomicBrkpts genomicBrkpts_append_get genomicBrkpts_other_fields)

text \<open>
  Claim C8.  After a first segment, a reverse-strand middle segment with reference range
  \<open>[100,200]\<close> leaves two new entries in the target breakpoint list, \<open>(chr1, 100, 200)\<close> and
  \<open>(chr1, 200, 100)\<close>, where the claim requires the single entry \<open>(chr1, 200, 100)\<close>.
\<close>

theorem update_brkpt_info_middle_reverse_twice:
  "(case update_brkpt_info SVBreakpoints_init ex_seg_first 0 False of
      Inl e \<Rightarrow> False
    | Inr res1 \<Rightarrow>
        (case update_brkpt_info (fst res1) ex_seg_middle_rev 1 False of
           Inl e \<Rightarrow> False
         | Inr res2 \<Rightarrow>
             genomicBrkpts_target (fst res1) = [Brkpt1 ''chr1'' 1050] \<and>
             genomicBrkpts_target (fst res2) =
               [Brkpt1 ''chr1'' 1050, Brkpt2 ''chr1'' 100 200, Brkpt2 ''chr1'' 200 100]))"
  by (simp add: update_brkpt_info_def Let_def ebind_def q1_last_set2_def update_tail_def
        t_update_def genomicBrkpts_append_def SVBreakpoints_init_def ex_seg_first_def
        ex_seg_middle_rev_def set_sv_brkpt_def)

text \<open>
  The other records of the same call hold the strand-ordered pair only: \<open>bp_r\<close> gains
  \<open>[200, 100]\<close> and the segment is annotated with \<open>(chr1, 200, 100)\<close> alone.
\<close>

lemma update_brkpt_info_middle_reverse_siblings:
  "(case update_brkpt_info SVBreakpoints_init ex_seg_first 0 False of
      Inl e \<Rightarrow> False
    | Inr res1 \<Rightarrow>
        (case update_brkpt_info (fst res1) ex_seg_middle_rev 1 False of
           Inl e \<Rightarrow> False
         | Inr res2 \<Rightarrow>
             bp_r (fst res2) = [1050, 200, 100]
             \<and> sv_brkpts (snd res2) = [(Brkpt2 ''chr1'' 200 100, ''rearrangement'', Target)]))"
  by (simp add: update_brkpt_info_def Let_def ebind_def q1_last_set2_def update_tail_def
        t_update_def genomicBrkpts_append_def SVBreakpoints_init_def ex_seg_first_def
        ex_seg_middle_rev_def set_sv_brkpt_def)

section \<open>Properties of the missing-coverage diagnostic\<close>






text \<open>An empty contig makes the division fail instead.\<close>

lemma startend_missing_query_coverage_empty:
  "seq (ev_contig e) = [] \<Longrightarrow> get_startend_missing_query_coverage e = Inl ZeroDivisionError"
  by (simp add: get_startend_missing_query_coverage_def Let_def)

section \<open>Properties of the overlap-compatibility check\<close>





text \<open>Without a query span the division fails; without an event the log line does.\<close>

lemma check_add_br_empty_span:
  "qend sg = qstart sg \<Longrightarrow> check_add_br cc sg gapStart gapEnd = Inl ZeroDivisionError"
  by (simp add: check_add_br_def)

lemma check_add_br_no_event:
  "qend sg \<noteq> qstart sg \<Longrightarrow> svEvent cc = None
     \<Longrightarrow> check_add_br cc sg gapStart gapEnd = Inl (AttributeError ''in_target'')"
  by (simp add: check_add_br_def Let_def)

section \<open>Properties of the event aggregator and the driver\<close>

lemma resolve_realignResults:
  "resolve_name [''self'', ''realignResult''] ''realignResults'' = Inl (NameError ''realignResults'')"
  by (simp add: resolve_name_def module_names_def)

text \<open>Every call of \<open>add\<close>, and so every construction of an event, raises \<^verbatim>\<open>NameError\<close>.\<close>

lemma add_raises: "add ev sg = Inl (NameError ''realignResults'')"
  by (simp add: add_def Let_def resolve_realignResults ebind_def)

lemma SVEvent_init_raises: "SVEvent_init sg c svt = Inl (NameError ''realignResults'')"
  by (simp add: SVEvent_init_def add_raises)

text \<open>An event without the attribute \<^verbatim>\<open>blatResults\<close> cannot be validated.\<close>

lemma result_valid_no_attribute:
  "blatResults ev = None \<Longrightarrow> result_valid ev = Inl (AttributeError ''blatResults'')"
  by (simp add: result_valid_def)

text \<open>With the attribute, the test is the one the specification states.\<close>

lemma result_valid_with_attribute:
  "blatResults ev = Some brs \<Longrightarrow> result_valid ev = Inr (1 < length brs \<and> ev_in_target ev)"
  by (simp add: result_valid_def)

lemma call_check_add_br_raises:
  "call_arity ''check_add_br'' 3 5 =
     Inl (TypeError ''check_add_br() takes exactly 4 arguments (6 given)'')"
  by (simp add: call_arity_def str_nat.simps)

lemma iter_gaps_step_first:
  "iter_gaps_step 0 g (cc, sg, ng, h) = Inl (NameError ''realignResults'')
   \<or> iter_gaps_step 0 g (cc, sg, ng, h) = Inr (cc, sg, ng @ [g], h)"
  by (simp add: iter_gaps_step_def Let_def SVEvent_init_raises ebind_def)

lemma iter_gaps_first_raises:
  assumes "svEvent cc = None"
  shows "\<exists>e. iter_gaps cc [g] sg 0 = Inl e"
  using iter_gaps_step_first [of g cc sg "[]" False] assms
  by (auto simp add: iter_gaps_def ebind_def)

text \<open>
  With two or more clipped segments \<open>check_svs\<close> raises on the first of them; with fewer it
  reports no event.  It therefore never reports a valid event.
\<close>

lemma check_svs_raises:
  assumes "length (clippedQs cc) > 1" and "svEvent cc = None"
  shows "\<exists>e. check_svs cc = Inl e"
proof -
  obtain a rest where c: "clippedQs cc = a # rest" using assms(1) by (cases "clippedQs cc") auto
  obtain e where "iter_gaps cc [(0, realignment_qsize cc)] a 0 = Inl e"
    using iter_gaps_first_raises [OF assms(2)] by blast
  then show ?thesis using assms(1) c by (simp add: check_svs_def ebind_def)
qed

lemma check_svs_few_clipped:
  assumes "length (clippedQs cc) \<le> 1" and "svEvent cc = None"
  shows "check_svs cc = Inr (False, cc)"
  using assms by (simp add: check_svs_def ebind_def)

lemma check_svs_never_valid:
  assumes "svEvent cc = None"
  shows "(\<exists>e. check_svs cc = Inl e) \<or> check_svs cc = Inr (False, cc)"
proof (cases "length (clippedQs cc) > 1")
  case True
  then show ?thesis using check_svs_raises [OF True assms] by blast
next
  case False
  then have "length (clippedQs cc) \<le> 1" by simp
  then show ?thesis using check_svs_few_clipped [OF _ assms] by blast
qed

text \<open>
  Claim C3.  On two clipped segments that are both outside the target, the event would
  be invalid and the claim requires \<open>check_svs\<close> to return false with the event reset.
  The code raises \<^verbatim>\<open>NameError\<close> while building the event; the validity test itself
  raises \<^verbatim>\<open>AttributeError\<close> on an event as the constructor lays it out, in-target or
  not.
\<close>

theorem check_svs_invalid_event_raises:
  "check_svs ex_caller_not_in_target = Inl (NameError ''realignResults'')
   \<and> result_valid (SVEvent_new ex_contig ''rearrangement'') = Inl (AttributeError ''blatResults'')
   \<and> result_valid ex_event_in_target = Inl (AttributeError ''blatResults'')"
  by (simp add: check_svs_def iter_gaps_def iter_gaps_step_def SVEvent_init_raises ebind_def
        result_valid_def ex_caller_not_in_target_def ex_seg_a_def ex_event_in_target_def
        SVEvent_new_def Let_def)

text \<open>
  Claim C5.  The classification core raises: \<open>add\<close> on any segment, the gap iteration
  on the first clipped segment (through the constructor), and the gap iteration on a
  later segment that hits a gap (through the call of \<open>check_add_br\<close> with five
  arguments).
\<close>

theorem classification_core_raises:
  "add (SVEvent_new ex_contig ''rearrangement'') ex_seg_wide = Inl (NameError ''realignResults'')
   \<and> iter_gaps (ex_caller_with_event\<lparr>svEvent := None\<rparr>) [(0, 400)] ex_seg_wide 0
       = Inl (NameError ''realignResults'')
   \<and> iter_gaps ex_caller_with_event [(0, 400)] ex_seg_wide 1
       = Inl (TypeError ''check_add_br() takes exactly 4 arguments (6 given)'')"
  by (simp add: add_raises iter_gaps_def iter_gaps_step_def SVEvent_init_raises ebind_def
        call_check_add_br_raises ex_caller_with_event_def ex_seg_wide_def Let_def)

section \<open>Properties of the aggregate classification\<close>

text \<open>
  The second loop over the rearrangement hits: after a first hit has been taken, every
  further hit sets the subtype to \<^verbatim>\<open>None\<close> and appends its own subtype to the
  description, which starts with \<^verbatim>\<open>None\<close> when it was still unset.
\<close>

lemma visit_rearrangement_after_first:
  "visit_rearrangement hs (s, n, True, d) =
     Inr (if hs = [] then s else None, n, True,
          if hs = [] then d
          else Some ((case d of None \<Rightarrow> [None] | Some x \<Rightarrow> x) @ map svSubType hs))"
  by (induction hs arbitrary: s d) (simp_all add: Let_def)

lemma visit_rearrangement_several:
  assumes "discReadCount h1 = Some n"
  shows "visit_rearrangement (h1 # h2 # hs) (None, 0, False, d) =
           Inr (None, n, True,
                Some ((case d of None \<Rightarrow> [None] | Some x \<Rightarrow> x) @ map svSubType (h2 # hs)))"
  using assms by (simp add: visit_rearrangement_after_first)

lemma visit_indel_labels:
  assumes "\<forall>h \<in> set hs. indelSize h \<noteq> None"
  shows "visit_indel hs (s, n, b, d) =
           Inr (s, n, b,
                if hs = [] then d
                else Some ((case d of None \<Rightarrow> [] | Some x \<Rightarrow> x) @ map indelSize hs))"
  using assms by (induction hs arbitrary: d) (auto simp add: Let_def)

text \<open>
  Shape of the hits collected by the first loop: a hit filed under \<^verbatim>\<open>'rearrangement'\<close>
  carries a read count and a subtype, a hit filed under \<^verbatim>\<open>'indel'\<close> carries a label.
\<close>

lemma ebind_InrE:
  assumes "ebind m f = Inr y"
  obtains x where "m = Inr x" and "f x = Inr y"
  using assms by (cases m) (simp_all add: ebind_def)

lemma which_rearr_hit_shape:
  assumes "which_rearr vr tc qc ss bs = Inr rv" and "hit rv"
  shows "(svType rv = ''rearrangement'' \<and> discReadCount rv \<noteq> None \<and> svSubType rv \<noteq> None)
         \<or> (svType rv \<noteq> ''rearrangement'' \<and> indelSize rv \<noteq> None)"
  using assms unfolding which_rearr_def Let_def
  by (auto elim!: ebind_InrE split: if_splits simp add: rearrValues_init_def)

lemma classify_pairs_Cons_Inr:
  assumes "classify_pairs vr tc qc strs bps (j # js) hits = Inr hits'"
  obtains ss vals where "strs = Some ss"
    and "which_rearr vr (py_slice2 tc j) (py_slice2 qc j) (py_slice2 ss j) (py_slice2 bps j) = Inr vals"
    and "classify_pairs vr tc qc strs bps js
           (if hit vals
            then (if svType vals = ''rearrangement'' then (fst hits @ [vals], snd hits)
                  else (fst hits, snd hits @ [vals]))
            else hits) = Inr hits'"
proof (cases strs)
  case None
  then show ?thesis using assms by simp
next
  case (Some ss)
  show ?thesis
  proof (cases "which_rearr vr (py_slice2 tc j) (py_slice2 qc j) (py_slice2 ss j) (py_slice2 bps j)")
    case (Inl e)
    then show ?thesis using assms Some by (simp add: ebind_def)
  next
    case (Inr vals)
    have "classify_pairs vr tc qc strs bps js
           (if hit vals
            then (if svType vals = ''rearrangement'' then (fst hits @ [vals], snd hits)
                  else (fst hits, snd hits @ [vals]))
            else hits) = Inr hits'"
      using assms Some Inr by (auto simp add: ebind_def split: if_splits)
    then show ?thesis using that Some Inr by blast
  qed
qed

lemma classify_pairs_shape:
  assumes "classify_pairs vr tc qc strs bps js hits = Inr hits'"
    and "\<forall>h \<in> set (fst hits). discReadCount h \<noteq> None"
    and "\<forall>h \<in> set (snd hits). indelSize h \<noteq> None"
  shows "(\<forall>h \<in> set (fst hits'). discReadCount h \<noteq> None)
         \<and> (\<forall>h \<in> set (snd hits'). indelSize h \<noteq> None)"
  using assms
proof (induction js arbitrary: hits)
  case Nil
  then show ?case by simp
next
  case (Cons j js)
  obtain ss vals where s: "strs = Some ss"
    and w: "which_rearr vr (py_slice2 tc j) (py_slice2 qc j) (py_slice2 ss j) (py_slice2 bps j) = Inr vals"
    and r: "classify_pairs vr tc qc strs bps js
           (if hit vals
            then (if svType vals = ''rearrangement'' then (fst hits @ [vals], snd hits)
                  else (fst hits, snd hits @ [vals]))
            else hits) = Inr hits'"
    using classify_pairs_Cons_Inr [OF Cons.prems(1)] by blast
  let ?next = "if hit vals
            then (if svType vals = ''rearrangement'' then (fst hits @ [vals], snd hits)
                  else (fst hits, snd hits @ [vals]))
            else hits"
  have a: "\<forall>h \<in> set (fst ?next). discReadCount h \<noteq> None"
    using Cons.prems(2) which_rearr_hit_shape [OF w] by auto
  have b: "\<forall>h \<in> set (snd ?next). indelSize h \<noteq> None"
    using Cons.prems(3) which_rearr_hit_shape [OF w] by auto
  show ?case using Cons.IH [OF r a b] .
qed

lemma define_rearr_unfold:
  assumes "blatResults ev = Some brs"
    and "classify_pairs (var_reads_sv (ev_contig ev)) (tcoords (brkpts ev)) (qcoords (brkpts ev))
               (strands (resultValues ev)) (bp_r (brkpts ev)) [1 ..< length brs] ([], [])
             = Inr (rh, ih)"
  shows "define_rearr b ev =
           ebind (if b then ebind (visit_indel ih (None, 0, False, rearrDesc ev))
                              (visit_rearrangement rh)
                  else ebind (visit_rearrangement rh (None, 0, False, rearrDesc ev))
                         (visit_indel ih))
             (\<lambda>st. case st of (sub, rs, rearrHit, desc) \<Rightarrow>
                Inr ((''rearrangement'', sub,
                      (if sub = None
                       then check_other_readcounts (var_reads_sv (ev_contig ev)) (bp_r (brkpts ev))
                       else rs)),
                     ev\<lparr>rearrDesc := desc\<rparr>))"
  using assms by (simp add: define_rearr_def Let_def ebind_def)

text \<open>
  The aggregate rule on an event that carries the attribute \<^verbatim>\<open>blatResults\<close>: with two or
  more rearrangement hits the subtype returned is \<^verbatim>\<open>None\<close>, the read count is the
  fallback one, and the description holds the subtype of every hit after the first and
  every indel label, whichever key is visited first.
\<close>

lemma define_rearr_several_hits:
  assumes a: "blatResults ev = Some brs"
    and cp: "classify_pairs (var_reads_sv (ev_contig ev)) (tcoords (brkpts ev)) (qcoords (brkpts ev))
               (strands (resultValues ev)) (bp_r (brkpts ev)) [1 ..< length brs] ([], [])
             = Inr (h1 # h2 # hs, ihs)"
  shows "\<exists>desc. define_rearr b ev =
           Inr ((''rearrangement'', None,
                 check_other_readcounts (var_reads_sv (ev_contig ev)) (bp_r (brkpts ev))),
                ev\<lparr>rearrDesc := Some desc\<rparr>)
           \<and> (\<forall>h \<in> set (h2 # hs). svSubType h \<in> set desc)
           \<and> (\<forall>h \<in> set ihs. indelSize h \<in> set desc)"
proof -
  have sh: "(\<forall>h \<in> set (h1 # h2 # hs). discReadCount h \<noteq> None) \<and> (\<forall>h \<in> set ihs. indelSize h \<noteq> None)"
    using classify_pairs_shape [OF cp] by simp
  then obtain n where n: "discReadCount h1 = Some n" by auto
  have il: "\<forall>h \<in> set ihs. indelSize h \<noteq> None" using sh by blast
  let ?d0 = "rearrDesc ev"
  let ?other = "check_other_readcounts (var_reads_sv (ev_contig ev)) (bp_r (brkpts ev))"
  show ?thesis
  proof (cases b)
    case False
    let ?d1 = "(case ?d0 of None \<Rightarrow> [None] | Some x \<Rightarrow> x) @ map svSubType (h2 # hs)"
    let ?d2 = "if ihs = [] then ?d1 else ?d1 @ map indelSize ihs"
    have v1: "visit_rearrangement (h1 # h2 # hs) (None, 0, False, ?d0) = Inr (None, n, True, Some ?d1)"
      by (rule visit_rearrangement_several [OF n])
    have v2: "visit_indel ihs (None, n, True, Some ?d1) = Inr (None, n, True, Some ?d2)"
      unfolding visit_indel_labels [OF il] by simp
    have "define_rearr b ev = Inr ((''rearrangement'', None, ?other), ev\<lparr>rearrDesc := Some ?d2\<rparr>)"
      unfolding define_rearr_unfold [OF a cp] using False
      by (simp only: if_False v1 ebind_def sum.case v2 prod.case refl if_True)
    moreover have "\<forall>h \<in> set (h2 # hs). svSubType h \<in> set ?d2" by auto
    moreover have "\<forall>h \<in> set ihs. indelSize h \<in> set ?d2" by auto
    ultimately show ?thesis by blast
  next
    case True
    let ?d1 = "if ihs = [] then ?d0
               else Some ((case ?d0 of None \<Rightarrow> [] | Some x \<Rightarrow> x) @ map indelSize ihs)"
    let ?d2 = "(case ?d1 of None \<Rightarrow> [None] | Some x \<Rightarrow> x) @ map svSubType (h2 # hs)"
    have v1: "visit_indel ihs (None, 0, False, ?d0) = Inr (None, 0, False, ?d1)"
      by (rule visit_indel_labels [OF il])
    have v2: "visit_rearrangement (h1 # h2 # hs) (None, 0, False, ?d1) = Inr (None, n, True, Some ?d2)"
      by (rule visit_rearrangement_several [OF n])
    have "define_rearr b ev = Inr ((''rearrangement'', None, ?other), ev\<lparr>rearrDesc := Some ?d2\<rparr>)"
      unfolding define_rearr_unfold [OF a cp] using True
      by (simp only: if_True v1 ebind_def sum.case v2 prod.case refl)
    moreover have "\<forall>h \<in> set (h2 # hs). svSubType h \<in> set ?d2" by auto
    moreover have "\<forall>h \<in> set ihs. indelSize h \<in> set ?d2" by auto
    ultimately show ?thesis by blast
  qed
qed

lemma define_rearr_no_attribute:
  "blatResults ev = None \<Longrightarrow> define_rearr b ev = Inl (AttributeError ''blatResults'')"
  by (simp add: define_rearr_def Let_def)

text \<open>
  The lists of \<open>ex_event_mixed\<close> are the ones the breakpoint model computes from its three
  segments, which lie on one chromosome.
\<close>

lemma ex_event_mixed_lists:
  "(case update_brkpt_info SVBreakpoints_init ex_seg_a 0 False of
      Inl e \<Rightarrow> False
    | Inr res1 \<Rightarrow>
        (case update_brkpt_info (fst res1) ex_seg_b 1 False of
           Inl e \<Rightarrow> False
         | Inr res2 \<Rightarrow>
             (case update_brkpt_info (fst res2) ex_seg_c 2 True of
                Inl e \<Rightarrow> False
              | Inr res3 \<Rightarrow>
                  bp_r (fst res3) = bp_r (brkpts ex_event_mixed)
                  \<and> tcoords (fst res3) = tcoords (brkpts ex_event_mixed)
                  \<and> qcoords (fst res3) = qcoords (brkpts ex_event_mixed)
                  \<and> \<not> diff_chr (fst res3))))"
  by (simp add: update_brkpt_info_def Let_def ebind_def q1_last_set2_def update_tail_def
        t_update_def genomicBrkpts_append_def SVBreakpoints_init_def ex_seg_a_def ex_seg_b_def
        ex_seg_c_def set_sv_brkpt_def ex_event_mixed_def SVEvent_new_def diff_chr_def)

lemma upt_1_3: "[1 ..< 3] = [1, 2::nat]"
  by (simp add: upt_rec)

text \<open>
  Were the attribute \<^verbatim>\<open>blatResults\<close> present on the three-segment event (one entry per
  segment), the aggregation would return subtype \<^verbatim>\<open>None\<close> with the fallback read count
  and the description \<^verbatim>\<open>[None, 'tandem_dup']\<close>, in either iteration order.
\<close>

lemma define_rearr_with_attribute_example:
  "map_sum id (\<lambda>res. (fst res, rearrDesc (snd res)))
     (define_rearr b (ex_event_mixed\<lparr>blatResults :=
                         Some [(0, ex_seg_a), (50, ex_seg_b), (100, ex_seg_c)]\<rparr>))
   = Inr ((''rearrangement'', None, 5), Some [None, Some ''tandem_dup''])"
  by (simp add: define_rearr_def ex_event_mixed_def SVEvent_new_def SVBreakpoints_init_def
        ex_contig_def ex_var_reads_def upt_1_3 py_slice2_def which_rearr_def idx_def ebind_def
        check_overlap_def rearrValues_init_def Let_def)

text \<open>
  Claim C6.  The event \<open>ex_event_mixed\<close> has an inversion and a tandem duplication among
  its consecutive pairs, so the claim requires \<open>define_rearr\<close> to return an undetermined
  subtype and to extend the description.  The code raises \<^verbatim>\<open>AttributeError\<close> at
  \<^verbatim>\<open>len(self.blatResults)\<close>, before any pair is classified, in either iteration order.
\<close>

theorem define_rearr_missing_attribute:
  "define_rearr True ex_event_mixed = Inl (AttributeError ''blatResults'')
   \<and> define_rearr False ex_event_mixed = Inl (AttributeError ''blatResults'')"
  by (simp add: define_rearr_def ex_event_mixed_def SVEvent_new_def Let_def)

section \<open>Properties of the target manager\<close>

text \<open>
  The class namespace after the class body has run: \<open>start\<close> is bound to a property made
  of the getter of \<open>end\<close> and the second setter function, \<open>end\<close> has no setter.
\<close>

lemma TargetManager_properties_eq:
  "\<exists>props. TargetManager_properties = Inr props
     \<and> props ''start'' = Some \<lparr>fget = Get_end, fset = Some Set_end\<rparr>
     \<and> props ''end'' = Some \<lparr>fget = Get_end, fset = None\<rparr>
     \<and> props ''chrom'' = Some \<lparr>fget = Get_chrom, fset = Some Set_chrom\<rparr>
     \<and> props ''loggingName'' = None \<and> props ''params'' = None \<and> props ''name'' = None"
  by (simp add: TargetManager_properties_def TargetManager_body_def ebind_def)

lemma py_setattr_Classic: "py_setattr Classic props n v d = Inr (d(n \<mapsto> v))"
  by (simp add: py_setattr_def)

lemma setup_intervals_Classic:
  "\<exists>d'. setup_intervals Classic props vs d = Inr d'
        \<and> d' ''_TargetManager__chrom'' = d ''_TargetManager__chrom''
        \<and> d' ''name'' = d ''name'' \<and> d' ''readLen'' = d ''readLen''"
proof (induction vs arbitrary: d)
  case Nil
  then show ?case by simp
next
  case (Cons v vs)
  let ?d3 = "d(''chrom'' \<mapsto> PStr (fst v), ''start'' \<mapsto> PInt (fst (snd v)),
               ''end'' \<mapsto> PInt (snd (snd v)))"
  have step: "setup_intervals Classic props (v # vs) d = setup_intervals Classic props vs ?d3"
    by (simp add: py_setattr_Classic ebind_def)
  obtain d' where r: "setup_intervals Classic props vs ?d3 = Inr d'"
    and k: "d' ''_TargetManager__chrom'' = ?d3 ''_TargetManager__chrom''"
           "d' ''name'' = ?d3 ''name''" "d' ''readLen'' = ?d3 ''readLen''"
    using Cons.IH [of ?d3] by blast
  have "d' ''_TargetManager__chrom'' = d ''_TargetManager__chrom''" "d' ''name'' = d ''name''"
      "d' ''readLen'' = d ''readLen''"
    using k by simp_all
  then show ?case unfolding step using r by blast
qed

text \<open>With intercepting property setters the fourth statement of the constructor raises.\<close>

lemma TargetManager_init_NewStyle:
  "TargetManager_init NewStyle name ps = Inl (AttributeError ''_TargetManager__chrom'')"
proof -
  obtain props where p: "TargetManager_properties = Inr props"
    and c: "props ''chrom'' = Some \<lparr>fget = Get_chrom, fset = Some Set_chrom\<rparr>"
    and n: "props ''loggingName'' = None" "props ''params'' = None" "props ''name'' = None"
    using TargetManager_properties_eq by blast
  show ?thesis
    by (simp add: TargetManager_init_def p c n py_setattr_def ebind_def)
qed

text \<open>For a classic class the constructor completes when its external steps do.\<close>

lemma TargetManager_init_Classic:
  assumes "readLen_int ps = Inr n" and "setup_paths ps = Inr ()"
  shows "\<exists>d. TargetManager_init Classic name ps = Inr d
              \<and> d ''_TargetManager__chrom'' = None
              \<and> d ''name'' = Some (PStr name) \<and> d ''readLen'' = Some (PInt n)"
proof -
  obtain props where p: "TargetManager_properties = Inr props"
    using TargetManager_properties_eq by blast
  let ?d11 = "Map.empty(''loggingName'' \<mapsto> PStr ''breakmer.processor.target'',
      ''params'' \<mapsto> PObj ''params'', ''name'' \<mapsto> PStr name, ''chrom'' \<mapsto> PNone,
      ''start'' \<mapsto> PNone, ''end'' \<mapsto> PNone, ''paths'' \<mapsto> PObj ''dict'',
      ''files'' \<mapsto> PObj ''dict'', ''readLen'' \<mapsto> PInt n, ''variation'' \<mapsto> PObj ''Variation'',
      ''regionBuffer'' \<mapsto> PInt 200)"
  have i: "TargetManager_init Classic name ps = TargetManager_setup Classic props name ps ?d11"
    by (simp add: TargetManager_init_def p py_setattr_Classic ebind_def assms)
  obtain d' where s: "setup_intervals Classic props (get_target_intervals ps name) ?d11 = Inr d'"
    and k: "d' ''_TargetManager__chrom'' = ?d11 ''_TargetManager__chrom''"
           "d' ''name'' = ?d11 ''name''" "d' ''readLen'' = ?d11 ''readLen''"
    using setup_intervals_Classic [of props "get_target_intervals ps name" ?d11] by blast
  have "TargetManager_init Classic name ps = Inr d'"
    unfolding i by (simp add: TargetManager_setup_def s assms ebind_def)
  moreover have "d' ''_TargetManager__chrom'' = None" "d' ''name'' = Some (PStr name)"
      "d' ''readLen'' = Some (PInt n)"
    using k by simp_all
  ultimately show ?thesis by blast
qed

text \<open>
  Claim C10, as the code has it.  If property setters intercepted attribute assignment
  (a new-style class), the constructor would raise \<^verbatim>\<open>AttributeError\<close> at
  \<^verbatim>\<open>self.chrom = None\<close> for every name and parameter set, because \<^verbatim>\<open>__chrom\<close> is never
  initialised.  In the class namespace the second setter is bound to the name \<open>start\<close>
  and \<open>end\<close> has no setter.  The class as written has no bases: assignment stores into the
  instance dictionary, no setter runs, and the constructor completes whenever the
  parameter look-up and the directory set-up complete.
\<close>

theorem TargetManager_init_by_class_model:
  "TargetManager_init NewStyle name ps = Inl (AttributeError ''_TargetManager__chrom'')
   \<and> (case TargetManager_properties of
        Inl e \<Rightarrow> False
      | Inr props \<Rightarrow> props ''start'' = Some \<lparr>fget = Get_end, fset = Some Set_end\<rparr>
                     \<and> props ''end'' = Some \<lparr>fget = Get_end, fset = None\<rparr>)
   \<and> (readLen_int ps = Inr n \<and> setup_paths ps = Inr ()
      \<longrightarrow> (\<exists>d. TargetManager_new name ps = Inr d
               \<and> d ''_TargetManager__chrom'' = None
               \<and> d ''name'' = Some (PStr name) \<and> d ''readLen'' = Some (PInt n)))"
proof -
  have a: "case TargetManager_properties of
        Inl e \<Rightarrow> False
      | Inr props \<Rightarrow> props ''start'' = Some \<lparr>fget = Get_end, fset = Some Set_end\<rparr>
                     \<and> props ''end'' = Some \<lparr>fget = Get_end, fset = None\<rparr>"
  proof -
    obtain props where pp: "TargetManager_properties = Inr props"
      and pst: "props ''start'' = Some \<lparr>fget = Get_end, fset = Some Set_end\<rparr>"
      and pen: "props ''end'' = Some \<lparr>fget = Get_end, fset = None\<rparr>"
      using TargetManager_properties_eq by blast
    show ?thesis unfolding pp using pst pen by simp
  qed
  have c: "TargetManager_new name ps = TargetManager_init Classic name ps"
    by (simp add: TargetManager_new_def class_model_of_def TargetManager_bases_def)
  show ?thesis using TargetManager_init_NewStyle a TargetManager_init_Classic [of ps n name] c
    by simp
qed

theorem TargetManager_init_by_class_model_witness:
  "readLen_int ex_params = Inr 100 \<and> setup_paths ex_params = Inr ()
   \<and> TargetManager_init NewStyle ''BRCA1'' ex_params = Inl (AttributeError ''_TargetManager__chrom'')
   \<and> (\<exists>d. TargetManager_new ''BRCA1'' ex_params = Inr d \<and> d ''name'' = Some (PStr ''BRCA1''))"
proof -
  have h: "readLen_int ex_params = Inr 100 \<and> setup_paths ex_params = Inr ()"
    by (simp add: ex_params_def)
  show ?thesis using h TargetManager_init_by_class_model [of "''BRCA1''" ex_params 100] by blast
qed

text \<open>
  For the target \<open>BRCA1\<close> with one interval the constructor returns an instance whose
  \<open>chrom\<close>, \<open>start\<close> and \<open>end\<close> are plain instance attributes.
\<close>

theorem TargetManager_new_completes_counterexample:
  "(case TargetManager_new ''BRCA1'' ex_params of
      Inl e \<Rightarrow> False
    | Inr d \<Rightarrow> d ''chrom'' = Some (PStr ''17'') \<and> d ''start'' = Some (PInt 41196311)
                \<and> d ''end'' = Some (PInt 41277500) \<and> d ''_TargetManager__chrom'' = None)"
  by (simp add: TargetManager_new_def class_model_of_def TargetManager_bases_def
        TargetManager_init_def TargetManager_properties_def TargetManager_body_def
        TargetManager_setup_def py_setattr_def ebind_def ex_params_def)

end
